theory Spec2Isabelle
  imports Complex_Main "HOL-Library.Sublist"
begin

section \<open>Python strings\<close>

text \<open>
  A Python character is modelled by a HOL \<^typ>\<open>char\<close>, read as the Unicode code point
  of the same number (U+0000 to U+00FF); a Python \<^verbatim>\<open>str\<close> is a \<^typ>\<open>string\<close>.
  The classification below is the one of CPython's \<^verbatim>\<open>str\<close> methods on that range of
  code points; code points above U+00FF are outside the model.
\<close>

definition code_point :: "char \<Rightarrow> nat" where
  "code_point c = of_char c"

definition in_range :: "nat \<Rightarrow> nat \<Rightarrow> nat \<Rightarrow> bool" where
  "in_range lo hi n = (lo \<le> n \<and> n \<le> hi)"

text \<open>\<^verbatim>\<open>c.isalpha()\<close> for a single character: A-Z, a-z, and the letters of Latin-1.\<close>

definition isalpha_char :: "char \<Rightarrow> bool" where
  "isalpha_char c =
     (let n = code_point c in
      in_range 65 90 n \<or> in_range 97 122 n \<or> n = 170 \<or> n = 181 \<or> n = 186 \<or>
      in_range 192 214 n \<or> in_range 216 246 n \<or> in_range 248 255 n)"

text \<open>\<^verbatim>\<open>c.isdigit()\<close>: 0-9 and the superscript digits U+00B2, U+00B3, U+00B9.\<close>

definition isdigit_char :: "char \<Rightarrow> bool" where
  "isdigit_char c =
     (let n = code_point c in in_range 48 57 n \<or> in_range 178 179 n \<or> n = 185)"

text \<open>\<^verbatim>\<open>c.isnumeric()\<close>: the digits and the vulgar fractions U+00BC to U+00BE.\<close>

definition isnumeric_char :: "char \<Rightarrow> bool" where
  "isnumeric_char c = (isdigit_char c \<or> in_range 188 190 (code_point c))"

text \<open>
  \<^verbatim>\<open>c.isalnum()\<close>: CPython answers true when one of \<^verbatim>\<open>isalpha\<close>, \<^verbatim>\<open>isdecimal\<close>,
  \<^verbatim>\<open>isdigit\<close>, \<^verbatim>\<open>isnumeric\<close> does (every decimal is a digit).
\<close>

definition isalnum_char :: "char \<Rightarrow> bool" where
  "isalnum_char c = (isalpha_char c \<or> isdigit_char c \<or> isnumeric_char c)"

text \<open>\<^verbatim>\<open>c.isupper()\<close> for a single character.\<close>

definition isupper_char :: "char \<Rightarrow> bool" where
  "isupper_char c =
     (let n = code_point c in
      in_range 65 90 n \<or> in_range 192 214 n \<or> in_range 216 222 n)"

text \<open>
  The string methods: each is false on the empty string and otherwise asks every
  character.
\<close>

definition isalpha :: "string \<Rightarrow> bool" where
  "isalpha s = (s \<noteq> [] \<and> list_all isalpha_char s)"

definition isdigit :: "string \<Rightarrow> bool" where
  "isdigit s = (s \<noteq> [] \<and> list_all isdigit_char s)"

definition isalnum :: "string \<Rightarrow> bool" where
  "isalnum s = (s \<noteq> [] \<and> list_all isalnum_char s)"

text \<open>
  \<^verbatim>\<open>s.lower()\<close>: on this range every upper-case letter maps to the code point 32
  above it and nothing else changes, so the length is kept.
\<close>

definition lower_char :: "char \<Rightarrow> char" where
  "lower_char c = (if isupper_char c then char_of (code_point c + 32) else c)"

definition lower :: "string \<Rightarrow> string" where
  "lower s = map lower_char s"

section \<open>Errors\<close>

text \<open>The exceptions the modelled code can raise; a result is \<open>py_error + 'a\<close>.\<close>

datatype py_error =
    ZeroDivisionError
  | IndexError
  | ValueError
  | AttributeError
  | LibraryError

section \<open>QuantumChef: classification of the ingredients\<close>

record components =
  words :: "string list"
  numbers :: "string list"
  specials :: "string list"

definition organize_ingredients :: "string list \<Rightarrow> components" where
  "organize_ingredients items =
     \<lparr> words = filter isalpha items,
       numbers = filter isdigit items,
       specials = filter (\<lambda>x. \<not> isalnum x) items \<rparr>"

datatype item_type = Num | Spec | Word

definition get_type :: "string \<Rightarrow> item_type" where
  "get_type item =
     (if isdigit item then Num
      else if \<not> isalnum item then Spec
      else Word)"

text \<open>\<^verbatim>\<open>zip(type_seq, type_seq[1:])\<close>; the slice of an empty list is empty.\<close>

definition adjacent_pairs :: "'a list \<Rightarrow> ('a \<times> 'a) list" where
  "adjacent_pairs xs = zip xs (drop 1 xs)"

definition is_memorable :: "string list \<Rightarrow> bool" where
  "is_memorable combo =
     (let type_seq = map get_type combo
      in \<not> list_ex (\<lambda>(a, b). a = b) (adjacent_pairs type_seq))"

section \<open>SemanticAnalyzer\<close>

text \<open>\<^verbatim>\<open>p in s\<close> on strings: \<open>p\<close> occurs in \<open>s\<close> as a contiguous run of characters.\<close>

fun py_in :: "string \<Rightarrow> string \<Rightarrow> bool" where
  "py_in p [] = (p = [])"
| "py_in p (c # s) = (prefix p (c # s) \<or> py_in p s)"

definition common_patterns :: "string list" where
  "common_patterns =
     [''123'', ''qwerty'', ''password'', ''admin'', ''welcome'', ''111'', ''abc'']"

definition is_common_pattern :: "string \<Rightarrow> bool" where
  "is_common_pattern password =
     (let pw_lower = lower password
      in list_ex (\<lambda>p. py_in p pw_lower) common_patterns)"

text \<open>
  The score is a Python float; it is modelled by the real number the expression denotes,
  without the rounding of IEEE doubles. \<^verbatim>\<open>len(set(password)) / len(password)\<close> divides
  two integers, which raises \<^verbatim>\<open>ZeroDivisionError\<close> when the password is empty; the
  length component before it cannot fail.
\<close>

definition calculate_complexity :: "string \<Rightarrow> py_error + real" where
  "calculate_complexity password =
     (let length_part = min (real (length password) / 15) 1
      in if length password = 0 then Inl ZeroDivisionError
         else
           let diversity = real (card (set password)) / real (length password);
               upper = (if list_ex isupper_char password then 2 / 10 else 0);
               special = (if list_ex (\<lambda>c. \<not> isalnum_char c) password then 2 / 10 else 0);
               pattern = (if is_common_pattern password then 0 else 3 / 10)
           in Inr (length_part + diversity + upper + special + pattern))"

section \<open>The random source\<close>

text \<open>
  \<^verbatim>\<open>random.SystemRandom\<close> reads the operating system's entropy. The model takes its
  output as a parameter: \<open>rnd i\<close> is the \<open>i\<close>-th number drawn, and the number of draws made
  so far is threaded through the calls.
\<close>

type_synonym rng = "nat \<Rightarrow> nat"

text \<open>\<^verbatim>\<open>rng.choice(seq)\<close>: raises \<^verbatim>\<open>IndexError\<close> on an empty sequence.\<close>

definition choice :: "rng \<Rightarrow> nat \<Rightarrow> 'a list \<Rightarrow> py_error + ('a \<times> nat)" where
  "choice rnd k xs =
     (if xs = [] then Inl IndexError
      else Inr (xs ! (rnd k mod length xs), Suc k))"

text \<open>
  \<^verbatim>\<open>rng.sample(population, n)\<close>: raises \<^verbatim>\<open>ValueError\<close> when \<open>n\<close> exceeds the size of
  the population, and otherwise returns the elements at \<open>n\<close> distinct positions. The
  selection follows CPython's loop over a copy of the population: a position \<open>j\<close> is
  drawn among those left, \<^verbatim>\<open>pool[j]\<close> is taken, and the last element left moves into
  the vacancy. Each \<open>rnd i\<close> stands for one drawn number, reduced to the range asked
  for. (For a population of more than 21 elements CPython draws positions of the
  population itself and draws again on a repeat; the samples it can return are the same.)
\<close>

fun draw_distinct :: "rng \<Rightarrow> nat \<Rightarrow> 'a list \<Rightarrow> nat \<Rightarrow> 'a list \<times> nat" where
  "draw_distinct rnd k pool 0 = ([], k)"
| "draw_distinct rnd k pool (Suc n) =
     (let j = rnd k mod length pool;
          (rest, k') = draw_distinct rnd (Suc k) (butlast (pool[j := last pool])) n
      in (pool ! j # rest, k'))"

definition sample :: "rng \<Rightarrow> nat \<Rightarrow> 'a list \<Rightarrow> nat \<Rightarrow> py_error + ('a list \<times> nat)" where
  "sample rnd k population n =
     (if length population < n then Inl ValueError
      else Inr (draw_distinct rnd k population n))"

section \<open>AIPasswordOptimizer\<close>

text \<open>
  \<^verbatim>\<open>TfidfVectorizer\<close> and \<^verbatim>\<open>NearestNeighbors\<close> belong to scikit-learn, not to this
  program. Their four operations that the program calls are parameters of the model: each
  returns a value or raises. \<open>'m\<close> is a fitted vectorizer, \<open>'v\<close> a row vector, \<open>'i\<close> a
  fitted neighbour index; \<open>kneighbors\<close> gives the row \<^verbatim>\<open>indices[0]\<close>.
\<close>

record ('m, 'v, 'i) sklearn =
  fit_transform :: "string list \<Rightarrow> py_error + ('m \<times> 'v list)"
  transform :: "'m option \<Rightarrow> string \<Rightarrow> py_error + 'v"
  nn_fit :: "'v list \<Rightarrow> py_error + 'i"
  kneighbors :: "'i \<Rightarrow> 'v \<Rightarrow> py_error + int list"

text \<open>
  The object: \<open>vectorizer\<close> is \<open>None\<close> until it has been fitted, and \<open>nn\<close> is \<open>None\<close> as
  long as the attribute \<^verbatim>\<open>self.nn\<close> has not been assigned.
\<close>

record ('m, 'i) optimizer =
  dictionary :: "string list"
  vectorizer :: "'m option"
  nn :: "'i option"

definition train_similarity_model ::
  "('m, 'v, 'i) sklearn \<Rightarrow> ('m, 'i) optimizer \<Rightarrow> py_error + ('m, 'i) optimizer" where
  "train_similarity_model lib opt =
     (if length (dictionary opt) < 2 then Inr opt
      else case fit_transform lib (dictionary opt) of
             Inl e \<Rightarrow> Inl e
           | Inr (m, X) \<Rightarrow>
               (case nn_fit lib X of
                  Inl e \<Rightarrow> Inl e
                | Inr idx \<Rightarrow> Inr (opt\<lparr>vectorizer := Some m, nn := Some idx\<rparr>)))"

definition new_optimizer ::
  "('m, 'v, 'i) sklearn \<Rightarrow> string list \<Rightarrow> py_error + ('m, 'i) optimizer" where
  "new_optimizer lib dict =
     train_similarity_model lib \<lparr>dictionary = dict, vectorizer = None, nn = None\<rparr>"

text \<open>\<^verbatim>\<open>xs[i]\<close>: a negative index counts from the end, an index out of range raises.\<close>

definition py_index :: "'a list \<Rightarrow> int \<Rightarrow> py_error + 'a" where
  "py_index xs i =
     (let n = int (length xs);
          j = (if i < 0 then i + n else i)
      in if 0 \<le> j \<and> j < n then Inr (xs ! nat j) else Inl IndexError)"

fun lookup_all :: "'a list \<Rightarrow> int list \<Rightarrow> py_error + 'a list" where
  "lookup_all xs [] = Inr []"
| "lookup_all xs (i # is) =
     (case py_index xs i of
        Inl e \<Rightarrow> Inl e
      | Inr x \<Rightarrow> (case lookup_all xs is of Inl e \<Rightarrow> Inl e | Inr ys \<Rightarrow> Inr (x # ys)))"

text \<open>The body of the \<^verbatim>\<open>try\<close> block of \<^verbatim>\<open>suggest_variations\<close>.\<close>

definition suggest_body ::
  "('m, 'v, 'i) sklearn \<Rightarrow> ('m, 'i) optimizer \<Rightarrow> string \<Rightarrow> py_error + string list" where
  "suggest_body lib opt base_word =
     (case transform lib (vectorizer opt) base_word of
        Inl e \<Rightarrow> Inl e
      | Inr vec \<Rightarrow>
          (case nn opt of
             None \<Rightarrow> Inl AttributeError
           | Some idx \<Rightarrow>
               (case kneighbors lib idx vec of
                  Inl e \<Rightarrow> Inl e
                | Inr indices \<Rightarrow> lookup_all (dictionary opt) indices)))"

text \<open>The bare \<^verbatim>\<open>except\<close> catches every exception and returns the empty list.\<close>

definition suggest_variations ::
  "('m, 'v, 'i) sklearn \<Rightarrow> ('m, 'i) optimizer \<Rightarrow> string \<Rightarrow> py_error + string list" where
  "suggest_variations lib opt base_word =
     (case suggest_body lib opt base_word of
        Inl e \<Rightarrow> Inr []
      | Inr vs \<Rightarrow> Inr vs)"

section \<open>QuantumChef: mixing and baking\<close>

text \<open>
  \<^verbatim>\<open>s.upper()\<close> and \<^verbatim>\<open>s.title()\<close>. A lower-case letter maps to the code point 32 below
  it. Three characters have an upper-case form beyond U+00FF (U+00B5, U+00DF, U+00FF);
  the model leaves them as they are, so a string that holds one of them is outside what
  \<open>upper\<close> and \<open>title\<close> model. \<^verbatim>\<open>title\<close> writes a character in upper case when the
  character before it is not a cased letter, and in lower case otherwise.
\<close>

definition upper_char :: "char \<Rightarrow> char" where
  "upper_char c =
     (let n = code_point c in
      if in_range 97 122 n \<or> in_range 224 246 n \<or> in_range 248 254 n
      then char_of (n - 32) else c)"

definition upper :: "string \<Rightarrow> string" where
  "upper s = map upper_char s"

fun title_from :: "bool \<Rightarrow> string \<Rightarrow> string" where
  "title_from previous_is_cased [] = []"
| "title_from previous_is_cased (c # s) =
     (if previous_is_cased then lower_char c else upper_char c) # title_from (isalpha_char c) s"

definition title :: "string \<Rightarrow> string" where
  "title s = title_from False s"

text \<open>\<^verbatim>\<open>sep.join(combo)\<close>.\<close>

fun join :: "string \<Rightarrow> string list \<Rightarrow> string" where
  "join sep [] = []"
| "join sep [x] = x"
| "join sep (x # y # ys) = x @ sep @ join sep (y # ys)"

definition MAX_COMPONENTS :: nat where
  "MAX_COMPONENTS = 4"

text \<open>
  The chef: the classified ingredients, the buffer (a deque, oldest entry first), the
  optimizer, and the number of draws made from the random source.
\<close>

record ('m, 'i) chef =
  comps :: components
  combo_brew :: "string list"
  ai_optimizer :: "('m, 'i) optimizer"
  draws :: nat

definition new_chef ::
  "('m, 'v, 'i) sklearn \<Rightarrow> string list \<Rightarrow> py_error + ('m, 'i) chef" where
  "new_chef lib ingredients =
     (case new_optimizer lib ingredients of
        Inl e \<Rightarrow> Inl e
      | Inr opt \<Rightarrow>
          Inr \<lparr>comps = organize_ingredients ingredients, combo_brew = [],
               ai_optimizer = opt, draws = 0\<rparr>)"

text \<open>The five transforms of \<^verbatim>\<open>_cook_combo\<close>, in the order of the source's list.\<close>

datatype transform_kind = Title | Upper | JoinDash | JoinUnderscore | JoinPlain

definition transforms :: "transform_kind list" where
  "transforms = [Title, Upper, JoinDash, JoinUnderscore, JoinPlain]"

fun apply_transform :: "transform_kind \<Rightarrow> string list \<Rightarrow> string \<Rightarrow> string" where
  "apply_transform Title combo s = title s"
| "apply_transform Upper combo s = upper s"
| "apply_transform JoinDash combo s = join ''-'' combo"
| "apply_transform JoinUnderscore combo s = join ''_'' combo"
| "apply_transform JoinPlain combo s = join [] combo"

definition cook_combo :: "rng \<Rightarrow> nat \<Rightarrow> string list \<Rightarrow> py_error + (string \<times> nat)" where
  "cook_combo rnd k combo =
     (case choice rnd k transforms of
        Inl e \<Rightarrow> Inl e
      | Inr (t, k') \<Rightarrow> Inr (apply_transform t combo (join [] combo), k'))"

text \<open>\<^verbatim>\<open>words * 2 + numbers + specials\<close>.\<close>

definition elements :: "components \<Rightarrow> string list" where
  "elements c = (words c @ words c) @ numbers c @ specials c"

text \<open>
  One pass of the inner loop's body. The \<^verbatim>\<open>try\<close> block holds the sampling, the test
  and the cooking; a \<^verbatim>\<open>ValueError\<close> from any of them is swallowed and the loop goes on,
  any other exception leaves the function.
\<close>

definition mix_once :: "rng \<Rightarrow> nat \<Rightarrow> ('m, 'i) chef \<Rightarrow> py_error + ('m, 'i) chef" where
  "mix_once rnd mix_length st =
     (case sample rnd (draws st) (elements (comps st)) mix_length of
        Inl e \<Rightarrow> (if e = ValueError then Inr st else Inl e)
      | Inr (combo, k) \<Rightarrow>
          (if is_memorable combo
           then (case cook_combo rnd k combo of
                   Inl e \<Rightarrow> (if e = ValueError then Inr (st\<lparr>draws := k\<rparr>) else Inl e)
                 | Inr (cooked, k') \<Rightarrow>
                     Inr (st\<lparr>combo_brew := combo_brew st @ [cooked], draws := k'\<rparr>))
           else Inr (st\<lparr>draws := k\<rparr>)))"

text \<open>\<^verbatim>\<open>for _ in range(5 * mix_length)\<close>: the body, \<open>n\<close> times.\<close>

fun mix_times :: "rng \<Rightarrow> nat \<Rightarrow> nat \<Rightarrow> ('m, 'i) chef \<Rightarrow> py_error + ('m, 'i) chef" where
  "mix_times rnd mix_length 0 st = Inr st"
| "mix_times rnd mix_length (Suc n) st =
     (case mix_once rnd mix_length st of
        Inl e \<Rightarrow> Inl e
      | Inr st' \<Rightarrow> mix_times rnd mix_length n st')"

text \<open>\<^verbatim>\<open>for mix_length in range(2, min(MAX_COMPONENTS, len(elements)))\<close>.\<close>

fun mix_lengths :: "rng \<Rightarrow> nat list \<Rightarrow> ('m, 'i) chef \<Rightarrow> py_error + ('m, 'i) chef" where
  "mix_lengths rnd [] st = Inr st"
| "mix_lengths rnd (mix_length # rest) st =
     (case mix_times rnd mix_length (5 * mix_length) st of
        Inl e \<Rightarrow> Inl e
      | Inr st' \<Rightarrow> mix_lengths rnd rest st')"

definition create_quantum_mix :: "rng \<Rightarrow> ('m, 'i) chef \<Rightarrow> py_error + ('m, 'i) chef" where
  "create_quantum_mix rnd st =
     mix_lengths rnd [2 ..< min MAX_COMPONENTS (length (elements (comps st)))] st"

text \<open>The four enhancements of \<^verbatim>\<open>_add_quantum_spice\<close>, in the order of the source's list.\<close>

datatype enhancement = AppendNumber | PrependSymbol | InsertSeparator | Unchanged

definition enhancements :: "enhancement list" where
  "enhancements = [AppendNumber, PrependSymbol, InsertSeparator, Unchanged]"

fun apply_enhancement ::
  "rng \<Rightarrow> components \<Rightarrow> nat \<Rightarrow> enhancement \<Rightarrow> string \<Rightarrow> py_error + (string \<times> nat)" where
  "apply_enhancement rnd c k AppendNumber s =
     (case choice rnd k (numbers c) of
        Inl e \<Rightarrow> Inl e
      | Inr (n, k') \<Rightarrow> Inr (s @ n, k'))"
| "apply_enhancement rnd c k PrependSymbol s =
     (case choice rnd k [''!'', ''@'', ''#''] of
        Inl e \<Rightarrow> Inl e
      | Inr (symbol, k') \<Rightarrow> Inr (symbol @ s, k'))"
| "apply_enhancement rnd c k InsertSeparator s =
     (case choice rnd k [''-'', ''_'', ''~''] of
        Inl e \<Rightarrow> Inl e
      | Inr (sep, k') \<Rightarrow>
          Inr (take (length s div 2) s @ sep @ drop (length s div 2) s, k'))"
| "apply_enhancement rnd c k Unchanged s = Inr (s, k)"

definition add_quantum_spice ::
  "rng \<Rightarrow> components \<Rightarrow> nat \<Rightarrow> string \<Rightarrow> py_error + (string \<times> nat)" where
  "add_quantum_spice rnd c k password =
     (case choice rnd k enhancements of
        Inl e \<Rightarrow> Inl e
      | Inr (enh, k') \<Rightarrow> apply_enhancement rnd c k' enh password)"

text \<open>
  The \<^verbatim>\<open>while\<close> loop of \<^verbatim>\<open>_ai_enhance\<close> has no bound: the result is \<open>None\<close> when it
  never ends.
\<close>

partial_function (option) spice_loop ::
  "rng \<Rightarrow> components \<Rightarrow> nat \<Rightarrow> string \<Rightarrow> (py_error + (string \<times> nat)) option" where
  "spice_loop rnd c k password =
     (if is_common_pattern password
      then (case add_quantum_spice rnd c k password of
              Inl e \<Rightarrow> Some (Inl e)
            | Inr (password', k') \<Rightarrow> spice_loop rnd c k' password')
      else Some (Inr (password, k)))"

declare spice_loop.simps [code]

definition ai_enhance ::
  "('m, 'v, 'i) sklearn \<Rightarrow> rng \<Rightarrow> ('m, 'i) chef \<Rightarrow> string \<Rightarrow>
     (py_error + (string \<times> ('m, 'i) chef)) option" where
  "ai_enhance lib rnd st password =
     (case suggest_variations lib (ai_optimizer st) password of
        Inl e \<Rightarrow> Some (Inl e)
      | Inr variations \<Rightarrow>
          (case (if variations \<noteq> [] then choice rnd (draws st) (password # variations)
                 else Inr (password, draws st)) of
             Inl e \<Rightarrow> Some (Inl e)
           | Inr (chosen, k) \<Rightarrow>
               (case spice_loop rnd (comps st) k chosen of
                  None \<Rightarrow> None
                | Some (Inl e) \<Rightarrow> Some (Inl e)
                | Some (Inr (result, k')) \<Rightarrow> Some (Inr (result, st\<lparr>draws := k'\<rparr>)))))"

text \<open>
  \<^verbatim>\<open>bake_password\<close>: \<^verbatim>\<open>popleft\<close> raises \<^verbatim>\<open>IndexError\<close> on an empty deque. The result
  is the password with the chef after the call, or the exception that leaves the method.
\<close>

definition bake_password ::
  "('m, 'v, 'i) sklearn \<Rightarrow> rng \<Rightarrow> ('m, 'i) chef \<Rightarrow>
     (py_error + (string \<times> ('m, 'i) chef)) option" where
  "bake_password lib rnd st =
     (case (if combo_brew st = [] then create_quantum_mix rnd st else Inr st) of
        Inl e \<Rightarrow> Some (Inl e)
      | Inr st1 \<Rightarrow>
          (case combo_brew st1 of
             [] \<Rightarrow> Some (Inl IndexError)
           | base # rest \<Rightarrow>
               (case add_quantum_spice rnd (comps st1) (draws st1) base of
                  Inl e \<Rightarrow> Some (Inl e)
                | Inr (enhanced, k) \<Rightarrow>
                    ai_enhance lib rnd (st1\<lparr>combo_brew := rest, draws := k\<rparr>) enhanced)))"

section \<open>Concrete stand-ins for the library\<close>


definition small_sklearn :: "(unit, unit, unit) sklearn" where
  "small_sklearn =
     \<lparr>fit_transform = (\<lambda>docs. Inr ((), map (\<lambda>d. ()) docs)),
      transform = (\<lambda>m w. case m of None \<Rightarrow> Inl LibraryError | Some v \<Rightarrow> Inr ()),
      nn_fit = (\<lambda>X. Inr ()),
      kneighbors = (\<lambda>idx vec. Inl ValueError)\<rparr>"

section \<open>Facts about the string predicates\<close>

lemma isalpha_char_not_isdigit_char: "isalpha_char c \<Longrightarrow> \<not> isdigit_char c"
  by (auto simp: isalpha_char_def isdigit_char_def in_range_def Let_def)

lemma isalpha_char_isalnum_char: "isalpha_char c \<Longrightarrow> isalnum_char c"
  by (simp add: isalnum_char_def)

lemma isdigit_char_isalnum_char: "isdigit_char c \<Longrightarrow> isalnum_char c"
  by (simp add: isalnum_char_def)

lemma isalpha_isalnum: "isalpha s \<Longrightarrow> isalnum s"
  by (auto simp: isalpha_def isalnum_def list_all_iff isalpha_char_isalnum_char)

lemma isdigit_isalnum: "isdigit s \<Longrightarrow> isalnum s"
  by (auto simp: isdigit_def isalnum_def list_all_iff isdigit_char_isalnum_char)

lemma isalpha_not_isdigit: "isalpha s \<Longrightarrow> \<not> isdigit s"
proof
  assume a: "isalpha s" and d: "isdigit s"
  from a obtain c where "c \<in> set s" by (cases s) (auto simp: isalpha_def)
  with a d have "isalpha_char c" "isdigit_char c"
    by (auto simp: isalpha_def isdigit_def list_all_iff)
  then show False using isalpha_char_not_isdigit_char by blast
qed

lemma not_isalnum_iff: "\<not> isalnum s \<longleftrightarrow> s = [] \<or> list_ex (\<lambda>c. \<not> isalnum_char c) s"
  by (auto simp: isalnum_def list_all_iff list_ex_iff)

lemma py_in_sublist: "py_in p s = sublist p s"
  by (induction s) (simp_all add: sublist_Cons_right)

lemma py_in_iff: "py_in p s \<longleftrightarrow> (\<exists>xs ys. s = xs @ p @ ys)"
  by (simp add: py_in_sublist sublist_def)

section \<open>The classifier\<close>

text \<open>
  Claim C8. For every ingredient list, the three lists \<open>words\<close>, \<open>numbers\<close> and
  \<open>specials\<close> of the classifier are pairwise disjoint, and each of their elements is an
  element of the ingredient list.
\<close>

theorem organize_ingredients_disjoint:
  "set (words (organize_ingredients items)) \<inter> set (numbers (organize_ingredients items)) = {} \<and>
   set (words (organize_ingredients items)) \<inter> set (specials (organize_ingredients items)) = {} \<and>
   set (numbers (organize_ingredients items)) \<inter> set (specials (organize_ingredients items)) = {} \<and>
   set (words (organize_ingredients items)) \<union> set (numbers (organize_ingredients items)) \<union>
     set (specials (organize_ingredients items)) \<subseteq> set items"
  using isalpha_not_isdigit isalpha_isalnum isdigit_isalnum
  by (auto simp: organize_ingredients_def)

theorem organize_ingredients_disjoint_witness:
  "set (words (organize_ingredients [''cat'', ''7'', ''!'', ''a!''])) \<inter>
     set (numbers (organize_ingredients [''cat'', ''7'', ''!'', ''a!''])) = {} \<and>
   set (words (organize_ingredients [''cat'', ''7'', ''!'', ''a!''])) \<inter>
     set (specials (organize_ingredients [''cat'', ''7'', ''!'', ''a!''])) = {} \<and>
   set (numbers (organize_ingredients [''cat'', ''7'', ''!'', ''a!''])) \<inter>
     set (specials (organize_ingredients [''cat'', ''7'', ''!'', ''a!''])) = {} \<and>
   set (words (organize_ingredients [''cat'', ''7'', ''!'', ''a!''])) \<union>
     set (numbers (organize_ingredients [''cat'', ''7'', ''!'', ''a!''])) \<union>
     set (specials (organize_ingredients [''cat'', ''7'', ''!'', ''a!'']))
     \<subseteq> set [''cat'', ''7'', ''!'', ''a!'']"
  by (rule organize_ingredients_disjoint)

text \<open>
  Claim C2, as stated, fails: the token \<open>a!\<close> is not empty, holds the alphanumeric
  character \<open>a\<close>, and is placed in \<open>specials\<close>.
\<close>

theorem specials_mixed_token_counterexample:
  "''a!'' \<noteq> [] \<and>
   list_ex isalnum_char ''a!'' \<and>
   specials (organize_ingredients [''a!'']) = [''a!'']"
  by code_simp

text \<open>
  Claim C2, amended. For every ingredient list, the elements of \<open>words\<close> are exactly the
  ingredients that are alphabetic throughout, the elements of \<open>numbers\<close> exactly those
  that are digits throughout, and the elements of \<open>specials\<close> exactly those that are not
  alphanumeric throughout: the empty token, and every token with at least one
  non-alphanumeric character, whatever its other characters are. A token that is
  alphanumeric throughout without being all letters or all digits is in none of the
  three lists.
\<close>

theorem organize_ingredients_predicates:
  "(x \<in> set (words (organize_ingredients items)) \<longleftrightarrow> x \<in> set items \<and> isalpha x) \<and>
   (x \<in> set (numbers (organize_ingredients items)) \<longleftrightarrow> x \<in> set items \<and> isdigit x) \<and>
   (x \<in> set (specials (organize_ingredients items)) \<longleftrightarrow>
      x \<in> set items \<and> (x = [] \<or> list_ex (\<lambda>c. \<not> isalnum_char c) x)) \<and>
   (isalnum x \<and> \<not> isalpha x \<and> \<not> isdigit x \<longrightarrow>
      x \<notin> set (words (organize_ingredients items)) \<union> set (numbers (organize_ingredients items)) \<union>
          set (specials (organize_ingredients items)))"
  by (auto simp: organize_ingredients_def not_isalnum_iff [symmetric])

theorem organize_ingredients_predicates_witness:
  "isalnum ''a1'' \<and> \<not> isalpha ''a1'' \<and> \<not> isdigit ''a1'' \<and>
   ''a1'' \<notin> set (words (organize_ingredients [''cat'', ''a1'', ''a!''])) \<union>
              set (numbers (organize_ingredients [''cat'', ''a1'', ''a!''])) \<union>
              set (specials (organize_ingredients [''cat'', ''a1'', ''a!'']))"
proof -
  have h: "isalnum ''a1'' \<and> \<not> isalpha ''a1'' \<and> \<not> isdigit ''a1''" by code_simp
  from organize_ingredients_predicates [of "''a1''" "[''cat'', ''a1'', ''a!'']"] h
  show ?thesis by blast
qed

text \<open>
  Claim C10. When the ingredient list holds the empty string, the classifier puts it in
  \<open>specials\<close>, and in neither \<open>words\<close> nor \<open>numbers\<close>; the typing of single elements
  gives it the category \<open>Spec\<close>.
\<close>

theorem empty_token_is_special:
  "[] \<in> set items \<Longrightarrow>
   [] \<in> set (specials (organize_ingredients items)) \<and>
   [] \<notin> set (words (organize_ingredients items)) \<and>
   [] \<notin> set (numbers (organize_ingredients items)) \<and>
   get_type [] = Spec"
  by (simp add: organize_ingredients_def isalpha_def isdigit_def isalnum_def get_type_def)

theorem empty_token_is_special_witness:
  "[] \<in> set [''cat'', []] \<and>
   [] \<in> set (specials (organize_ingredients [''cat'', []])) \<and>
   [] \<notin> set (words (organize_ingredients [''cat'', []])) \<and>
   [] \<notin> set (numbers (organize_ingredients [''cat'', []])) \<and>
   get_type [] = Spec"
proof -
  have h: "[] \<in> set [''cat'', []]" by simp
  from empty_token_is_special [OF h] h show ?thesis by blast
qed

section \<open>Memorability\<close>

lemma list_ex_adjacent_pairs:
  "list_ex (\<lambda>(a, b). a = b) (adjacent_pairs xs) \<longleftrightarrow>
     (\<exists>i. Suc i < length xs \<and> xs ! i = xs ! Suc i)"
proof
  assume "list_ex (\<lambda>(a, b). a = b) (adjacent_pairs xs)"
  then obtain i where i: "i < length xs - 1" "xs ! i = xs ! Suc i"
    by (auto simp: list_ex_iff adjacent_pairs_def set_zip)
  then have "Suc i < length xs \<and> xs ! i = xs ! Suc i" by simp
  then show "\<exists>i. Suc i < length xs \<and> xs ! i = xs ! Suc i" ..
next
  assume "\<exists>i. Suc i < length xs \<and> xs ! i = xs ! Suc i"
  then obtain i where i: "Suc i < length xs" "xs ! i = xs ! Suc i" by blast
  then have "i < min (length xs) (length (drop 1 xs))" "drop 1 xs ! i = xs ! i" by simp_all
  then have "(xs ! i, xs ! i) \<in> set (zip xs (drop 1 xs))"
    unfolding set_zip by force
  then show "list_ex (\<lambda>(a, b). a = b) (adjacent_pairs xs)"
    unfolding list_ex_iff adjacent_pairs_def by force
qed

text \<open>
  Claim C7. \<open>is_memorable\<close> rejects a combination exactly when two neighbours in it have
  the same category, where the category of an element is \<open>Num\<close> when it is digits
  throughout, \<open>Spec\<close> when it is not alphanumeric, and \<open>Word\<close> otherwise. The combination
  \<open>cat, dog\<close> is rejected and \<open>cat, 7, !\<close> is accepted.
\<close>

theorem is_memorable_iff:
  "(\<not> is_memorable combo \<longleftrightarrow>
      (\<exists>i. Suc i < length combo \<and> get_type (combo ! i) = get_type (combo ! Suc i))) \<and>
   (get_type x = Num \<longleftrightarrow> isdigit x) \<and>
   (get_type x = Spec \<longleftrightarrow> \<not> isalnum x) \<and>
   (get_type x = Word \<longleftrightarrow> isalnum x \<and> \<not> isdigit x) \<and>
   \<not> is_memorable [''cat'', ''dog''] \<and>
   is_memorable [''cat'', ''7'', ''!'']"
proof -
  have 1: "\<not> is_memorable combo \<longleftrightarrow>
      (\<exists>i. Suc i < length combo \<and> get_type (combo ! i) = get_type (combo ! Suc i))"
    unfolding is_memorable_def Let_def list_ex_adjacent_pairs by auto
  have 2: "(get_type x = Num \<longleftrightarrow> isdigit x) \<and>
   (get_type x = Spec \<longleftrightarrow> \<not> isalnum x) \<and>
   (get_type x = Word \<longleftrightarrow> isalnum x \<and> \<not> isdigit x)"
    using isdigit_isalnum [of x] by (auto simp: get_type_def)
  have 3: "\<not> is_memorable [''cat'', ''dog'']" by code_simp
  have 4: "is_memorable [''cat'', ''7'', ''!'']" by code_simp
  from 1 2 3 4 show ?thesis by blast
qed

theorem is_memorable_iff_witness:
  "\<not> is_memorable [''7'', ''cat'', ''dog''] \<and>
   (\<exists>i. Suc i < length [''7'', ''cat'', ''dog''] \<and>
        get_type ([''7'', ''cat'', ''dog''] ! i) = get_type ([''7'', ''cat'', ''dog''] ! Suc i))"
proof -
  have h: "\<not> is_memorable [''7'', ''cat'', ''dog'']" by code_simp
  from is_memorable_iff [of "[''7'', ''cat'', ''dog'']"] h show ?thesis by blast
qed

section \<open>Weak patterns and the score\<close>

text \<open>
  Claim C6. \<open>is_common_pattern\<close> holds of a candidate exactly when its lower-case form
  contains one of the seven fixed strings as a contiguous substring. It holds of
  \<open>Summer123!\<close> and not of \<open>Xk9#mQ2z\<close>.
\<close>

theorem is_common_pattern_iff:
  "(is_common_pattern password \<longleftrightarrow>
      (\<exists>p \<in> {''123'', ''qwerty'', ''password'', ''admin'', ''welcome'', ''111'', ''abc''}.
         \<exists>xs ys. lower password = xs @ p @ ys)) \<and>
   is_common_pattern ''Summer123!'' \<and>
   \<not> is_common_pattern ''Xk9#mQ2z''"
proof -
  have 1: "is_common_pattern password \<longleftrightarrow>
      (\<exists>p \<in> {''123'', ''qwerty'', ''password'', ''admin'', ''welcome'', ''111'', ''abc''}.
         \<exists>xs ys. lower password = xs @ p @ ys)"
    unfolding is_common_pattern_def Let_def list_ex_iff py_in_iff common_patterns_def
    by simp
  have 2: "is_common_pattern ''Summer123!''" by code_simp
  have 3: "\<not> is_common_pattern ''Xk9#mQ2z''" by code_simp
  from 1 2 3 show ?thesis by blast
qed

theorem is_common_pattern_iff_witness:
  "is_common_pattern ''myPassWord'' \<and>
   (\<exists>p \<in> {''123'', ''qwerty'', ''password'', ''admin'', ''welcome'', ''111'', ''abc''}.
      \<exists>xs ys. lower ''myPassWord'' = xs @ p @ ys)"
proof -
  have h: "is_common_pattern ''myPassWord''" by code_simp
  from is_common_pattern_iff [of "''myPassWord''"] h show ?thesis by blast
qed

lemma calculate_complexity_nonempty:
  "password \<noteq> [] \<Longrightarrow>
   calculate_complexity password =
     Inr (min (real (length password) / 15) 1 +
          real (card (set password)) / real (length password) +
          (if list_ex isupper_char password then 2 / 10 else 0) +
          (if list_ex (\<lambda>c. \<not> isalnum_char c) password then 2 / 10 else 0) +
          (if is_common_pattern password then 0 else 3 / 10))"
  by (simp add: calculate_complexity_def Let_def)

lemma diversity_bounds:
  assumes "password \<noteq> []"
  shows "0 < real (card (set password)) / real (length password)"
    and "real (card (set password)) / real (length password) \<le> 1"
proof -
  have "0 < card (set password)" using assms by (simp add: card_gt_0_iff)
  moreover have "0 < length password" using assms by simp
  ultimately show "0 < real (card (set password)) / real (length password)" by simp
  have "card (set password) \<le> length password" by (rule card_length)
  then show "real (card (set password)) / real (length password) \<le> 1"
    using \<open>0 < length password\<close> by simp
qed

text \<open>
  Claim C3, as stated, fails: on the empty candidate the score is not 0, the division by
  the length raises \<open>ZeroDivisionError\<close>.
\<close>

theorem calculate_complexity_empty_counterexample:
  "calculate_complexity [] = Inl ZeroDivisionError \<and> calculate_complexity [] \<noteq> Inr 0"
  by (simp add: calculate_complexity_def)

text \<open>
  Claim C3, amended. \<open>calculate_complexity\<close> returns a score for every candidate that is
  not empty, and for no other: on the empty candidate, and only there, it raises
  \<open>ZeroDivisionError\<close>.
\<close>

theorem calculate_complexity_defined_iff:
  "((\<exists>r. calculate_complexity password = Inr r) \<longleftrightarrow> password \<noteq> []) \<and>
   (calculate_complexity password = Inl ZeroDivisionError \<longleftrightarrow> password = [])"
  by (auto simp: calculate_complexity_def Let_def)

theorem calculate_complexity_defined_iff_witness:
  "''A!'' \<noteq> [] \<and> calculate_complexity ''A!'' = Inr (11 / 6)"
proof -
  have "calculate_complexity ''A!'' = Inr (11 / 6)" by code_simp
  with calculate_complexity_defined_iff [of "''A!''"] show ?thesis by simp
qed

text \<open>
  Claim C4. For every candidate that is not empty, the score is the sum of five parts:
  the smaller of length / 15 and 1, the number of distinct characters over the length,
  0.2 when some character is upper case, 0.2 when some character is not alphanumeric,
  and 0.3 when the candidate holds no common pattern. For fifteen times the letter \<open>a\<close>
  it is 1 + 1/15 + 0.3, within a thousandth of 1.367. The arithmetic is that of the
  real numbers.
\<close>

theorem calculate_complexity_formula:
  "(password \<noteq> [] \<longrightarrow>
    calculate_complexity password =
      Inr (min (real (length password) / 15) 1 +
           real (card (set password)) / real (length password) +
           (if \<exists>c \<in> set password. isupper_char c then 2 / 10 else 0) +
           (if \<exists>c \<in> set password. \<not> isalnum_char c then 2 / 10 else 0) +
           (if is_common_pattern password then 0 else 3 / 10))) \<and>
   calculate_complexity ''aaaaaaaaaaaaaaa'' = Inr (1 + 1 / 15 + 3 / 10) \<and>
   \<bar>(1 + 1 / 15 + 3 / 10) - (1367 / 1000 :: real)\<bar> < 1 / 1000"
proof -
  have 1: "password \<noteq> [] \<longrightarrow>
    calculate_complexity password =
      Inr (min (real (length password) / 15) 1 +
           real (card (set password)) / real (length password) +
           (if \<exists>c \<in> set password. isupper_char c then 2 / 10 else 0) +
           (if \<exists>c \<in> set password. \<not> isalnum_char c then 2 / 10 else 0) +
           (if is_common_pattern password then 0 else 3 / 10))"
    by (simp add: calculate_complexity_nonempty list_ex_iff)
  have 2: "calculate_complexity ''aaaaaaaaaaaaaaa'' = Inr (1 + 1 / 15 + 3 / 10)"
    by code_simp
  have 3: "\<bar>(1 + 1 / 15 + 3 / 10) - (1367 / 1000 :: real)\<bar> < 1 / 1000" by simp
  from 1 2 3 show ?thesis by blast
qed

theorem calculate_complexity_formula_witness:
  "''Ab1!'' \<noteq> [] \<and>
   calculate_complexity ''Ab1!'' = Inr (4 / 15 + 1 + 2 / 10 + 2 / 10 + 3 / 10)"
proof -
  have a: "min (real (length ''Ab1!'') / 15) 1 = 4 / 15" by simp
  have b: "real (card (set ''Ab1!'')) / real (length ''Ab1!'') = 1" by simp
  have c: "\<exists>c \<in> set ''Ab1!''. isupper_char c" by code_simp
  have d: "\<exists>c \<in> set ''Ab1!''. \<not> isalnum_char c" by code_simp
  have e: "\<not> is_common_pattern ''Ab1!''" by code_simp
  have ne: "''Ab1!'' \<noteq> []" by simp
  from calculate_complexity_formula [of "''Ab1!''"] ne
  have "calculate_complexity ''Ab1!'' =
      Inr (min (real (length ''Ab1!'') / 15) 1 +
           real (card (set ''Ab1!'')) / real (length ''Ab1!'') +
           (if \<exists>c \<in> set ''Ab1!''. isupper_char c then 2 / 10 else 0) +
           (if \<exists>c \<in> set ''Ab1!''. \<not> isalnum_char c then 2 / 10 else 0) +
           (if is_common_pattern ''Ab1!'' then 0 else 3 / 10))" by blast
  then have "calculate_complexity ''Ab1!'' = Inr (4 / 15 + 1 + 2 / 10 + 2 / 10 + 3 / 10)"
    unfolding a b using c d e by simp
  with ne show ?thesis by blast
qed

text \<open>
  Claim C5, as stated, fails: the candidate \<open>A!\<close> scores 11/6, which is above 1.7.
\<close>

theorem calculate_complexity_above_counterexample:
  "calculate_complexity ''A!'' = Inr (11 / 6) \<and> (17 / 10 :: real) < 11 / 6"
proof -
  have "calculate_complexity ''A!'' = Inr (11 / 6)" by code_simp
  then show ?thesis by simp
qed

text \<open>
  Claim C5, amended. Every score that \<open>calculate_complexity\<close> returns is positive and at
  most 2.7, the sum of the largest values of the five parts (1, 1, 0.2, 0.2, 0.3); the
  candidate of the witness reaches 2.7. The arithmetic is that of the real numbers.
\<close>

theorem calculate_complexity_bounds:
  "calculate_complexity password = Inr r \<Longrightarrow> 0 < r \<and> r \<le> 27 / 10"
proof -
  assume eq: "calculate_complexity password = Inr r"
  then have ne: "password \<noteq> []" by (auto simp: calculate_complexity_def)
  let ?l = "min (real (length password) / 15) 1"
  let ?d = "real (card (set password)) / real (length password)"
  let ?u = "if list_ex isupper_char password then 2 / 10 else (0::real)"
  let ?s = "if list_ex (\<lambda>c. \<not> isalnum_char c) password then 2 / 10 else (0::real)"
  let ?p = "if is_common_pattern password then 0 else (3 / 10 :: real)"
  have r: "r = ?l + ?d + ?u + ?s + ?p"
    using eq calculate_complexity_nonempty [OF ne] by simp
  have l: "0 \<le> ?l" "?l \<le> 1" by simp_all
  have d: "0 < ?d" "?d \<le> 1" using diversity_bounds [OF ne] by simp_all
  have u: "0 \<le> ?u" "?u \<le> 2 / 10" by simp_all
  have s: "0 \<le> ?s" "?s \<le> 2 / 10" by simp_all
  have p: "0 \<le> ?p" "?p \<le> 3 / 10" by simp_all
  from l d u s p show ?thesis unfolding r by linarith
qed

theorem calculate_complexity_bounds_witness:
  "calculate_complexity ''Xk9#mQ2zLpWv!bT'' = Inr (27 / 10) \<and> (0::real) < 27 / 10 \<and>
   (27 / 10 :: real) \<le> 27 / 10"
proof -
  have h: "calculate_complexity ''Xk9#mQ2zLpWv!bT'' = Inr (27 / 10)" by code_simp
  from calculate_complexity_bounds [OF h] h show ?thesis by simp
qed

section \<open>The advisor\<close>

lemma suggest_variations_total: "\<exists>vs. suggest_variations lib opt w = Inr vs"
  by (simp add: suggest_variations_def split: sum.split)

lemma new_optimizer_small:
  "length dict < 2 \<Longrightarrow>
   new_optimizer lib dict = Inr \<lparr>dictionary = dict, vectorizer = None, nn = None\<rparr>"
  by (simp add: new_optimizer_def train_similarity_model_def)

lemma suggest_body_no_nn: "nn opt = None \<Longrightarrow> \<exists>e. suggest_body lib opt w = Inl e"
  by (simp add: suggest_body_def split: sum.split)

text \<open>
  Claim C9. \<open>suggest_variations\<close> never raises, whatever the library does. It returns the
  empty list for every query when the optimizer was built from fewer than 2 ingredients,
  when the vectorization raises, when the neighbour lookup raises, and whenever anything
  inside its \<^verbatim>\<open>try\<close> block raises.
\<close>

theorem suggest_variations_failures_give_empty:
  "(\<exists>vs. suggest_variations lib opt w = Inr vs) \<and>
   (length dict < 2 \<and> new_optimizer lib dict = Inr opt \<longrightarrow>
      suggest_variations lib opt w = Inr []) \<and>
   ((\<exists>e. transform lib (vectorizer opt) w = Inl e) \<longrightarrow>
      suggest_variations lib opt w = Inr []) \<and>
   (\<forall>vec idx. transform lib (vectorizer opt) w = Inr vec \<and> nn opt = Some idx \<and>
       (\<exists>e. kneighbors lib idx vec = Inl e) \<longrightarrow> suggest_variations lib opt w = Inr []) \<and>
   ((\<exists>e. suggest_body lib opt w = Inl e) \<longrightarrow> suggest_variations lib opt w = Inr [])"
proof -
  have 1: "\<exists>vs. suggest_variations lib opt w = Inr vs" by (rule suggest_variations_total)
  have 5: "(\<exists>e. suggest_body lib opt w = Inl e) \<longrightarrow> suggest_variations lib opt w = Inr []"
    by (auto simp: suggest_variations_def)
  have 2: "length dict < 2 \<and> new_optimizer lib dict = Inr opt \<longrightarrow>
      suggest_variations lib opt w = Inr []"
  proof
    assume a: "length dict < 2 \<and> new_optimizer lib dict = Inr opt"
    then have "nn opt = None" using new_optimizer_small [of dict lib] by auto
    then show "suggest_variations lib opt w = Inr []" using suggest_body_no_nn 5 by blast
  qed
  have 3: "(\<exists>e. transform lib (vectorizer opt) w = Inl e) \<longrightarrow>
      suggest_variations lib opt w = Inr []"
    by (auto simp: suggest_variations_def suggest_body_def)
  have 4: "\<forall>vec idx. transform lib (vectorizer opt) w = Inr vec \<and> nn opt = Some idx \<and>
       (\<exists>e. kneighbors lib idx vec = Inl e) \<longrightarrow> suggest_variations lib opt w = Inr []"
    by (auto simp: suggest_variations_def suggest_body_def)
  from 1 2 3 4 5 show ?thesis by blast
qed

theorem suggest_variations_failures_give_empty_witness:
  "length [''cat''] < 2 \<and>
   new_optimizer small_sklearn [''cat''] =
     Inr \<lparr>dictionary = [''cat''], vectorizer = None, nn = None\<rparr> \<and>
   suggest_variations small_sklearn
     \<lparr>dictionary = [''cat''], vectorizer = None, nn = None\<rparr> ''cat'' = Inr [] \<and>
   transform small_sklearn (Some ()) ''cat'' = Inr () \<and>
   kneighbors small_sklearn () () = Inl ValueError \<and>
   suggest_variations small_sklearn
     \<lparr>dictionary = [''cat'', ''dog''], vectorizer = Some (), nn = Some ()\<rparr> ''cat'' = Inr []"
proof -
  let ?opt1 = "\<lparr>dictionary = [''cat''], vectorizer = None, nn = None\<rparr> :: (unit, unit) optimizer"
  let ?opt2 = "\<lparr>dictionary = [''cat'', ''dog''], vectorizer = Some (), nn = Some ()\<rparr>
                 :: (unit, unit) optimizer"
  have a: "length [''cat''] < 2" by simp
  have b: "new_optimizer small_sklearn [''cat''] = Inr ?opt1"
    by (simp add: new_optimizer_def train_similarity_model_def)
  have c: "transform small_sklearn (vectorizer ?opt2) ''cat'' = Inr ()"
    by (simp add: small_sklearn_def)
  have d: "kneighbors small_sklearn () () = Inl ValueError"
    by (simp add: small_sklearn_def)
  have n: "nn ?opt2 = Some ()" by simp
  from suggest_variations_failures_give_empty [of small_sklearn ?opt1 "''cat''" "[''cat'']"] a b
  have r1: "suggest_variations small_sklearn ?opt1 ''cat'' = Inr []" by blast
  from suggest_variations_failures_give_empty [of small_sklearn ?opt2 "''cat''" "[]"] c d n
  have r2: "suggest_variations small_sklearn ?opt2 ''cat'' = Inr []" by blast
  from a b c d r1 r2 show ?thesis by simp
qed

section \<open>Baking\<close>

lemma create_quantum_mix_small_pool:
  "length (elements (comps st)) \<le> 2 \<Longrightarrow> create_quantum_mix rnd st = Inr st"
  by (simp add: create_quantum_mix_def MAX_COMPONENTS_def)

lemma bake_password_still_empty:
  "combo_brew st = [] \<Longrightarrow> create_quantum_mix rnd st = Inr st' \<Longrightarrow> combo_brew st' = [] \<Longrightarrow>
   bake_password lib rnd st = Some (Inl IndexError)"
  by (simp add: bake_password_def)

lemma bake_password_small_pool:
  "combo_brew st = [] \<Longrightarrow> length (elements (comps st)) \<le> 2 \<Longrightarrow>
   bake_password lib rnd st = Some (Inl IndexError)"
  using bake_password_still_empty create_quantum_mix_small_pool by blast

text \<open>Which calls can raise, and what they raise.\<close>

lemma choice_Inl: "choice rnd k xs = Inl e \<Longrightarrow> e = IndexError \<and> xs = []"
  by (simp add: choice_def split: if_splits)













text \<open>
  A run that returns: with one word, one number and one symbol, and the random source
  that draws 0, 1, 2, ..., the chef is built and the first password baked is \<open>7cat\<close>.
\<close>

lemma bake_password_returns_example:
  "new_chef small_sklearn [''cat'', ''7'', ''!''] =
     Inr \<lparr>comps = organize_ingredients [''cat'', ''7'', ''!''], combo_brew = [],
          ai_optimizer =
            \<lparr>dictionary = [''cat'', ''7'', ''!''], vectorizer = Some (), nn = Some ()\<rparr>,
          draws = 0\<rparr> \<and>
   map_option (map_sum id fst)
     (bake_password small_sklearn id
        \<lparr>comps = organize_ingredients [''cat'', ''7'', ''!''], combo_brew = [],
         ai_optimizer =
           \<lparr>dictionary = [''cat'', ''7'', ''!''], vectorizer = Some (), nn = Some ()\<rparr>,
         draws = 0\<rparr>)
   = Some (Inr ''7cat'')"
  by code_simp




end
